theory Spec2Isabelle
  imports
    Main
    "HOL-Library.Sublist"
    "HOL-Library.Char_ord"
    "HOL-Library.List_Lexorder"
    "HOL-Library.Product_Lexorder"
begin

section \<open>Python values and text\<close>

text \<open>
  Exceptions are values. \<open>IndexError\<close> is raised by \<open>snapshot_runs[0]\<close> on an empty list,
  \<open>RuntimeError\<close> by \<open>tracemalloc.take_snapshot()\<close> when the tracer is not tracing, and
  \<open>TargetError\<close> stands for whatever exception the profiled function raises.
  The source defines no exception class of its own.
\<close>

datatype error = IndexError | RuntimeError | TargetError string

definition NL :: string where
  "NL = [CHR 0x0A]"

definition TAB :: string where
  "TAB = [CHR 0x09]"

text \<open>\<open>sep.join(parts)\<close>.\<close>

fun join :: "string \<Rightarrow> string list \<Rightarrow> string" where
  "join sep [] = []"
| "join sep [x] = x"
| "join sep (x # y # ys) = x @ sep @ join sep (y # ys)"

text \<open>\<open>str(n)\<close> of an \<open>int\<close>: decimal digits, with a leading minus sign below zero.\<close>

definition digit_char :: "nat \<Rightarrow> char" where
  "digit_char d = char_of (48 + d)"

function str_nat :: "nat \<Rightarrow> string" where
  "str_nat n = (if n < 10 then [digit_char n] else str_nat (n div 10) @ [digit_char (n mod 10)])"
  by pat_completeness auto
termination
  by (relation "measure id") auto

declare str_nat.simps [simp del]

definition str_int :: "int \<Rightarrow> string" where
  "str_int i = (if i < 0 then ''-'' @ str_nat (nat (- i)) else str_nat (nat i))"

definition str_bool :: "bool \<Rightarrow> string" where
  "str_bool b = (if b then ''True'' else ''False'')"

text \<open>\<open>str\<close> of an \<open>int | None\<close>.\<close>

definition str_opt_nat :: "nat option \<Rightarrow> string" where
  "str_opt_nat v = (case v of None \<Rightarrow> ''None'' | Some n \<Rightarrow> str_nat n)"

text \<open>
  \<open>str.strip()\<close>: the characters Python counts as white space, among the code points
  below 256, are removed from both ends.
\<close>

definition is_space :: "char \<Rightarrow> bool" where
  "is_space c = ((of_char c :: nat) \<in> {9, 10, 11, 12, 13, 28, 29, 30, 31, 32, 133, 160})"

definition strip :: "string \<Rightarrow> string" where
  "strip s = rev (dropWhile is_space (rev (dropWhile is_space s)))"

text \<open>
  Python slices \<open>xs[:i]\<close> and \<open>xs[i:]\<close>: a negative bound counts from the end, and
  every bound is clipped to the list (\<open>nat\<close> of a negative number is 0).
\<close>

definition slice_bound :: "int \<Rightarrow> nat \<Rightarrow> nat" where
  "slice_bound i n = (if i < 0 then nat (int n + i) else min (nat i) n)"

definition slice_to :: "'a list \<Rightarrow> int \<Rightarrow> 'a list" where
  "slice_to xs i = take (slice_bound i (length xs)) xs"

definition slice_from :: "'a list \<Rightarrow> int \<Rightarrow> 'a list" where
  "slice_from xs i = drop (slice_bound i (length xs)) xs"

text \<open>\<open>list.sort(reverse=True, key=key)\<close>: the list is reversed, sorted stably, reversed.\<close>

definition sort_reverse :: "('a \<Rightarrow> 'k::linorder) \<Rightarrow> 'a list \<Rightarrow> 'a list" where
  "sort_reverse key xs = rev (sort_key key (rev xs))"

text \<open>
  What the code takes from the Python runtime, and what no claim depends on, is a
  parameter of the model:
  \<^item> \<open>getline\<close> is \<open>linecache.getline(filename, lineno)\<close>, which returns the empty
    string when the line cannot be read and never \<open>None\<close>;
  \<^item> \<open>kib_text n\<close> is the text Python gives the float \<open>n / 1024\<close>;
  \<^item> \<open>repr_text s\<close> is \<open>repr(s)\<close> of a \<open>str\<close>;
  \<^item> \<open>fnmatch name pattern\<close> is the file-name match of \<open>tracemalloc.Filter\<close>, on the
    normalised names;
  \<^item> \<open>tracemalloc_file\<close> is \<open>tracemalloc.__file__\<close>.
\<close>

record runtime =
  getline :: "string \<Rightarrow> int \<Rightarrow> string"
  kib_text :: "int \<Rightarrow> string"
  repr_text :: "string \<Rightarrow> string"
  fnmatch :: "string \<Rightarrow> string \<Rightarrow> bool"
  tracemalloc_file :: string

section \<open>The allocation tracer (Python's \<open>tracemalloc\<close>)\<close>

text \<open>
  A frame is a file name and a line number. A raw trace carries the size of a memory
  block and the frames of its allocation, the most recent first; the tracer records at
  least one frame for every block (\<open><unknown>\<close>, line 0, when it has none), so the most
  recent frame is a field of its own. A snapshot is the list of its traces.
\<close>

type_synonym frame = "string \<times> int"

record trace =
  trace_size :: int
  trace_recent :: frame
  trace_older :: "frame list"

type_synonym Snapshot = "trace list"

text \<open>
  \<open>tracemalloc.Traceback(frames)\<close> stores the frames reversed, the oldest first;
  \<open>frame0\<close> is \<open>traceback[0]\<close>. The tracebacks of grouped statistics are built without a
  frame total, so \<open>total_nframe\<close> is \<open>None\<close> there.
\<close>

record Traceback =
  frame0 :: frame
  frames_after :: "frame list"
  total_nframe :: "nat option"

fun reversed1 :: "'a \<Rightarrow> 'a list \<Rightarrow> 'a \<times> 'a list" where
  "reversed1 x [] = (x, [])"
| "reversed1 x (y # ys) = (let (z, zs) = reversed1 y ys in (z, zs @ [x]))"

definition Traceback_init :: "frame \<Rightarrow> frame list \<Rightarrow> Traceback" where
  "Traceback_init f fs =
     (let (g, gs) = reversed1 f fs
      in \<lparr>frame0 = g, frames_after = gs, total_nframe = None\<rparr>)"

definition Traceback_frames :: "Traceback \<Rightarrow> frame list" where
  "Traceback_frames tb = frame0 tb # frames_after tb"

record Statistic =
  traceback :: Traceback
  size_stat :: int
  count_stat :: int

record StatisticDiff =
  traceback_diff :: Traceback
  size_new :: int
  size_diff :: int
  count_new :: int
  count_diff :: int

datatype TraceKeyType = FILENAME | LINE_NUM | TRACEBACK

text \<open>
  \<open>Snapshot._group_by(key_type, cumulative=False)\<close>. The enum member stands for its
  \<open>value\<close>, one of the three strings the tracer accepts. The dictionary of statistics is
  an association list in insertion order, keyed by the frames of the traceback.
\<close>

definition key_traceback :: "TraceKeyType \<Rightarrow> trace \<Rightarrow> Traceback" where
  "key_traceback k t =
     (case k of
        TRACEBACK \<Rightarrow> Traceback_init (trace_recent t) (trace_older t)
      | LINE_NUM \<Rightarrow> Traceback_init (trace_recent t) []
      | FILENAME \<Rightarrow> Traceback_init (fst (trace_recent t), 0) [])"

fun stats_add :: "Traceback \<Rightarrow> int \<Rightarrow> Statistic list \<Rightarrow> Statistic list" where
  "stats_add tb sz [] = [\<lparr>traceback = tb, size_stat = sz, count_stat = 1\<rparr>]"
| "stats_add tb sz (s # ss) =
     (if Traceback_frames (traceback s) = Traceback_frames tb
      then s\<lparr>size_stat := size_stat s + sz, count_stat := count_stat s + 1\<rparr> # ss
      else s # stats_add tb sz ss)"

definition group_by :: "TraceKeyType \<Rightarrow> Snapshot \<Rightarrow> Statistic list" where
  "group_by k snap = fold (\<lambda>t stats. stats_add (key_traceback k t) (trace_size t) stats) snap []"

definition Statistic_sort_key :: "Statistic \<Rightarrow> int \<times> int \<times> frame list" where
  "Statistic_sort_key s = (size_stat s, count_stat s, Traceback_frames (traceback s))"

definition statistics :: "TraceKeyType \<Rightarrow> Snapshot \<Rightarrow> Statistic list" where
  "statistics k snap = sort_reverse Statistic_sort_key (group_by k snap)"

text \<open>
  \<open>tracemalloc.Filter(inclusive, filename_pattern)\<close>, with its other arguments at their
  defaults: only the most recent frame of a trace is matched.
\<close>

record Filter =
  inclusive :: bool
  filename_pattern :: string

definition Filter_match :: "runtime \<Rightarrow> Filter \<Rightarrow> trace \<Rightarrow> bool" where
  "Filter_match rt f t =
     (fnmatch rt (fst (trace_recent t)) (filename_pattern f) \<noteq> (\<not> inclusive f))"

definition filter_trace :: "runtime \<Rightarrow> Filter list \<Rightarrow> Filter list \<Rightarrow> trace \<Rightarrow> bool" where
  "filter_trace rt include_filters exclude_filters t =
     (if include_filters \<noteq> [] \<and> \<not> list_ex (\<lambda>f. Filter_match rt f t) include_filters
      then False
      else if exclude_filters \<noteq> [] \<and> list_ex (\<lambda>f. \<not> Filter_match rt f t) exclude_filters
      then False
      else True)"

definition filter_traces :: "runtime \<Rightarrow> Filter list \<Rightarrow> Snapshot \<Rightarrow> Snapshot" where
  "filter_traces rt filters snap =
     (if filters \<noteq> []
      then filter
             (filter_trace rt (filter inclusive filters) (filter (\<lambda>f. \<not> inclusive f) filters))
             snap
      else snap)"

section \<open>Settings and ranked statistics\<close>

text \<open>
  The profiled function acts on the traced allocations and may raise; \<open>str_Callable\<close> is
  the text \<open>str(func)\<close>.
\<close>

record Callable =
  invoke :: "trace list \<Rightarrow> error + trace list"
  str_Callable :: string

record ProfileRunSettings =
  func :: Callable
  func_file_names :: "string list"
  run_count :: int
  key_type :: TraceKeyType
  limit :: int
  exclusive_filter :: bool

record StatisticRun =
  position :: int
  statistic :: Statistic

definition StatisticRun_init :: "int \<Rightarrow> Statistic \<Rightarrow> StatisticRun" where
  "StatisticRun_init pos st = \<lparr>position = pos + 1, statistic = st\<rparr>"

record SnapshotRun =
  iteration :: int
  snapshot :: Snapshot
  settings :: ProfileRunSettings

definition inclusive_filtered :: "runtime \<Rightarrow> SnapshotRun \<Rightarrow> Snapshot" where
  "inclusive_filtered rt sr =
     filter_traces rt
       [\<lparr>inclusive = False, filename_pattern = tracemalloc_file rt\<rparr>,
        \<lparr>inclusive = False, filename_pattern = ''<frozen importlib._bootstrap>''\<rparr>,
        \<lparr>inclusive = False, filename_pattern = ''<unknown>''\<rparr>]
       (snapshot sr)"

definition exclusive_filtered :: "runtime \<Rightarrow> SnapshotRun \<Rightarrow> Snapshot" where
  "exclusive_filtered rt sr =
     filter_traces rt
       (map (\<lambda>func_file_name. \<lparr>inclusive = True, filename_pattern = func_file_name\<rparr>)
            (func_file_names (settings sr)))
       (snapshot sr)"

definition filtered_snapshot :: "runtime \<Rightarrow> SnapshotRun \<Rightarrow> Snapshot" where
  "filtered_snapshot rt sr =
     (if exclusive_filter (settings sr) then exclusive_filtered rt sr
      else inclusive_filtered rt sr)"

definition top_stats :: "runtime \<Rightarrow> SnapshotRun \<Rightarrow> StatisticRun list" where
  "top_stats rt sr =
     map (\<lambda>(i, stat). StatisticRun_init (int i) stat)
       (enumerate 0
          (slice_to (statistics (key_type (settings sr)) (filtered_snapshot rt sr))
             (limit (settings sr))))"

definition remaining_stats :: "runtime \<Rightarrow> SnapshotRun \<Rightarrow> StatisticRun list" where
  "remaining_stats rt sr =
     map (\<lambda>(i, stat). StatisticRun_init (int i) stat)
       (enumerate 0
          (slice_from (statistics (key_type (settings sr)) (filtered_snapshot rt sr))
             (limit (settings sr))))"

definition total_size_line :: "runtime \<Rightarrow> StatisticRun list \<Rightarrow> string" where
  "total_size_line rt stats =
     (if length stats > 0
      then kib_text rt (sum_list (map (\<lambda>stat. size_stat (statistic stat)) stats)) @ '' KiB''
      else '''')"

definition top_stats_summary :: "runtime \<Rightarrow> SnapshotRun \<Rightarrow> string" where
  "top_stats_summary rt sr = total_size_line rt (top_stats rt sr)"

definition remaining_stats_summary :: "runtime \<Rightarrow> SnapshotRun \<Rightarrow> string" where
  "remaining_stats_summary rt sr = total_size_line rt (remaining_stats rt sr)"

text \<open>
  \<open>StatisticRun.file_trace\<close>, \<open>line_trace\<close> and \<open>__str__\<close>. \<open>str.strip()\<close> returns a
  \<open>str\<close>, so the value the source names \<open>line\<close> is never \<open>None\<close>.
\<close>

definition file_trace :: "runtime \<Rightarrow> StatisticRun \<Rightarrow> string" where
  "file_trace rt sr =
     (let frame = frame0 (traceback (statistic sr))
      in TAB @ ''#'' @ str_int (position sr) @ '': ''
         @ kib_text rt (size_stat (statistic sr)) @ ''KiB -> ''
         @ fst frame @ '':'' @ str_int (snd frame)
         @ '' (traces: '' @ str_opt_nat (total_nframe (traceback (statistic sr))) @ '')'')"

definition line_trace :: "runtime \<Rightarrow> StatisticRun \<Rightarrow> string option" where
  "line_trace rt sr =
     (let frame = frame0 (traceback (statistic sr));
          line = Some (strip (getline rt (fst frame) (snd frame)))
      in (case line of Some text \<Rightarrow> Some (TAB @ TAB @ text) | None \<Rightarrow> None))"

definition str_StatisticRun :: "runtime \<Rightarrow> StatisticRun \<Rightarrow> string" where
  "str_StatisticRun rt sr =
     (case line_trace rt sr of
        Some lt \<Rightarrow> file_trace rt sr @ NL @ lt
      | None \<Rightarrow> file_trace rt sr)"

record StatisticDiffRun =
  position_diff :: int
  statistic_diff :: StatisticDiff

definition StatisticDiffRun_init :: "int \<Rightarrow> StatisticDiff \<Rightarrow> StatisticDiffRun" where
  "StatisticDiffRun_init pos st = \<lparr>position_diff = pos + 1, statistic_diff = st\<rparr>"

definition file_trace_diff :: "runtime \<Rightarrow> StatisticDiffRun \<Rightarrow> string" where
  "file_trace_diff rt sr =
     (let frame = frame0 (traceback_diff (statistic_diff sr))
      in TAB @ ''#'' @ str_int (position_diff sr) @ '': ''
         @ kib_text rt (size_diff (statistic_diff sr)) @ ''KiB -> ''
         @ fst frame @ '':'' @ str_int (snd frame)
         @ '' (traces: ''
         @ str_opt_nat (total_nframe (traceback_diff (statistic_diff sr))) @ '')'')"

definition line_trace_diff :: "runtime \<Rightarrow> StatisticDiffRun \<Rightarrow> string option" where
  "line_trace_diff rt sr =
     (let frame = frame0 (traceback_diff (statistic_diff sr));
          line = Some (strip (getline rt (fst frame) (snd frame)))
      in (case line of Some text \<Rightarrow> Some (TAB @ TAB @ text) | None \<Rightarrow> None))"

definition str_StatisticDiffRun :: "runtime \<Rightarrow> StatisticDiffRun \<Rightarrow> string" where
  "str_StatisticDiffRun rt sr =
     (case line_trace_diff rt sr of
        Some lt \<Rightarrow> file_trace_diff rt sr @ NL @ lt
      | None \<Rightarrow> file_trace_diff rt sr)"

text \<open>\<open>SnapshotRun.__str__\<close>.\<close>

definition str_SnapshotRun :: "runtime \<Rightarrow> SnapshotRun \<Rightarrow> string" where
  "str_SnapshotRun rt sr =
     (let title = (if iteration sr \<noteq> 0
                   then NL @ ''## Snapshot Run #'' @ str_int (iteration sr)
                   else NL @ ''## Snapshot Before Run'')
      in join NL
           [title,
            ''### Top '' @ str_int (limit (settings sr)) @ '' Memory Hogs:'',
            join NL (map (str_StatisticRun rt) (top_stats rt sr)),
            NL @ ''### Summary:'',
            TAB @ ''Top Total Size: '' @ top_stats_summary rt sr,
            TAB @ ''Remaining Total Size: '' @ remaining_stats_summary rt sr])"

section \<open>Differences between snapshots\<close>

text \<open>
  \<open>_compare_grouped_stats(old_group, new_group)\<close> of the tracer: every group of the new
  snapshot is reported with its size minus the size of the same group in the old
  snapshot, which is popped from \<open>old_group\<close>; the groups left in \<open>old_group\<close> are
  reported with their size negated.
\<close>

fun pop_group :: "Traceback \<Rightarrow> Statistic list \<Rightarrow> Statistic option \<times> Statistic list" where
  "pop_group tb [] = (None, [])"
| "pop_group tb (s # ss) =
     (if Traceback_frames (traceback s) = Traceback_frames tb then (Some s, ss)
      else (let (found, rest) = pop_group tb ss in (found, s # rest)))"

fun compare_new_group ::
  "Statistic list \<Rightarrow> Statistic list \<Rightarrow> StatisticDiff list \<times> Statistic list" where
  "compare_new_group old_group [] = ([], old_group)"
| "compare_new_group old_group (stat # new_group) =
     (let (previous, old_group1) = pop_group (traceback stat) old_group;
          d = (case previous of
                 Some p \<Rightarrow>
                   \<lparr>traceback_diff = traceback stat,
                    size_new = size_stat stat, size_diff = size_stat stat - size_stat p,
                    count_new = count_stat stat, count_diff = count_stat stat - count_stat p\<rparr>
               | None \<Rightarrow>
                   \<lparr>traceback_diff = traceback stat,
                    size_new = size_stat stat, size_diff = size_stat stat,
                    count_new = count_stat stat, count_diff = count_stat stat\<rparr>);
          (ds, old_group2) = compare_new_group old_group1 new_group
      in (d # ds, old_group2))"

definition compare_grouped_stats :: "Statistic list \<Rightarrow> Statistic list \<Rightarrow> StatisticDiff list" where
  "compare_grouped_stats old_group new_group =
     (let (ds, old_left) = compare_new_group old_group new_group
      in ds @ map (\<lambda>stat. \<lparr>traceback_diff = traceback stat,
                            size_new = 0, size_diff = - size_stat stat,
                            count_new = 0, count_diff = - count_stat stat\<rparr>) old_left)"

definition StatisticDiff_sort_key :: "StatisticDiff \<Rightarrow> int \<times> int \<times> int \<times> int \<times> frame list" where
  "StatisticDiff_sort_key d =
     (\<bar>size_diff d\<bar>, size_new d, \<bar>count_diff d\<bar>, count_new d,
      Traceback_frames (traceback_diff d))"

text \<open>\<open>self.compare_to(old_snapshot, key_type)\<close>: the receiver is the new snapshot.\<close>

definition compare_to :: "Snapshot \<Rightarrow> Snapshot \<Rightarrow> TraceKeyType \<Rightarrow> StatisticDiff list" where
  "compare_to self old_snapshot k =
     (let new_group = group_by k self;
          old_group = group_by k old_snapshot
      in sort_reverse StatisticDiff_sort_key (compare_grouped_stats old_group new_group))"

record SnapshotDiffRun =
  iterations :: "int \<times> int"
  diff :: "StatisticDiff list"
  limit_diff :: int

text \<open>\<open>SnapshotDiffRun(iterations, diff)\<close>, with \<open>limit\<close> left at its default of 10.\<close>

definition SnapshotDiffRun_init :: "int \<times> int \<Rightarrow> StatisticDiff list \<Rightarrow> SnapshotDiffRun" where
  "SnapshotDiffRun_init its d = \<lparr>iterations = its, diff = d, limit_diff = 10\<rparr>"

definition top_stats_diff :: "SnapshotDiffRun \<Rightarrow> StatisticDiffRun list" where
  "top_stats_diff dr =
     map (\<lambda>(i, stat). StatisticDiffRun_init (int i) stat)
       (enumerate 0 (slice_to (diff dr) (limit_diff dr)))"

definition remaining_stats_diff :: "SnapshotDiffRun \<Rightarrow> StatisticDiffRun list" where
  "remaining_stats_diff dr =
     map (\<lambda>(i, stat). StatisticDiffRun_init (int i) stat)
       (enumerate 0 (slice_from (diff dr) (limit_diff dr)))"

definition total_size_line_diff :: "runtime \<Rightarrow> StatisticDiffRun list \<Rightarrow> string" where
  "total_size_line_diff rt stats =
     (if length stats > 0
      then kib_text rt (sum_list (map (\<lambda>stat. size_diff (statistic_diff stat)) stats)) @ '' KiB''
      else '''')"

definition str_SnapshotDiffRun :: "runtime \<Rightarrow> SnapshotDiffRun \<Rightarrow> string" where
  "str_SnapshotDiffRun rt dr =
     (let title = NL @ ''## Snapshot Comparison between #'' @ str_int (fst (iterations dr))
                  @ '' and #'' @ str_int (snd (iterations dr))
      in join NL
           [title,
            ''### Top '' @ str_int (limit_diff dr) @ '' Memory Hogs:'',
            join NL (map (str_StatisticDiffRun rt) (top_stats_diff dr)),
            NL @ ''### Summary:'',
            TAB @ ''Top Total Size: '' @ total_size_line_diff rt (top_stats_diff dr),
            TAB @ ''Remaining Total Size: '' @ total_size_line_diff rt (remaining_stats_diff dr)])"

section \<open>The profile run\<close>

record ProfileRun =
  snapshot_runs :: "SnapshotRun list"
  func_file_names_run :: "string list"
  func_name :: string

definition compare :: "runtime \<Rightarrow> SnapshotRun \<Rightarrow> SnapshotRun \<Rightarrow> SnapshotDiffRun" where
  "compare rt first second =
     SnapshotDiffRun_init (iteration first, iteration second)
       (compare_to (filtered_snapshot rt first) (filtered_snapshot rt second)
          (key_type (settings first)))"

text \<open>
  \<open>ProfileRun.comparisons\<close>: the loop over \<open>enumerate(self.snapshot_runs)\<close>; the index
  \<open>i - 1\<close> is read only where \<open>i \<noteq> 0\<close>, so both indices are in range.
\<close>

definition comparisons :: "runtime \<Rightarrow> ProfileRun \<Rightarrow> SnapshotDiffRun list" where
  "comparisons rt pr =
     fold (\<lambda>(i, _) acc.
             if i \<noteq> 0
             then acc @ [compare rt (snapshot_runs pr ! (i - 1)) (snapshot_runs pr ! i)]
             else acc)
       (enumerate 0 (snapshot_runs pr)) []"

text \<open>\<open>str(names)\<close> of a list of \<open>str\<close>.\<close>

definition str_list :: "runtime \<Rightarrow> string list \<Rightarrow> string" where
  "str_list rt names = ''['' @ join '', '' (map (repr_text rt) names) @ '']''"

definition TraceKeyType_name :: "TraceKeyType \<Rightarrow> string" where
  "TraceKeyType_name k =
     (case k of FILENAME \<Rightarrow> ''FILENAME'' | LINE_NUM \<Rightarrow> ''LINE_NUM'' | TRACEBACK \<Rightarrow> ''TRACEBACK'')"

text \<open>
  \<open>ProfileRun.__str__\<close>: the list the source joins with new lines, then the join.
  \<open>self.snapshot_runs[0]\<close> raises on an empty list.
\<close>

definition report_parts :: "runtime \<Rightarrow> ProfileRun \<Rightarrow> ProfileRunSettings \<Rightarrow> string list" where
  "report_parts rt pr s =
     [''# Profile Run For '' @ func_name pr,
      ''```'',
      ''SETTINGS'' @ NL,
      ''- Memory Limit: '' @ str_int (limit s),
      ''- Key Type: '' @ TraceKeyType_name (key_type s),
      ''- Exclusive Filter Set: '' @ str_bool (exclusive_filter s),
      (if exclusive_filter s
       then ''- File Filters Applied: '' @ str_list rt (func_file_names s)
       else ''''),
      ''```'',
      join NL (map (str_SnapshotRun rt) (snapshot_runs pr)),
      ''# Profile Comparisons For '' @ func_name pr,
      join NL (map (str_SnapshotRun rt) (snapshot_runs pr)),
      NL @ ''# Profile Comparisons For '' @ func_name pr,
      join NL (map (str_SnapshotDiffRun rt) (comparisons rt pr))]"

definition str_ProfileRun :: "runtime \<Rightarrow> ProfileRun \<Rightarrow> error + string" where
  "str_ProfileRun rt pr =
     (case snapshot_runs pr of
        [] \<Rightarrow> Inl IndexError
      | first # _ \<Rightarrow> Inr (join NL (report_parts rt pr (settings first))))"

section \<open>Running the profile\<close>

text \<open>
  The tracer is process-wide state: whether it is tracing, and the traces it holds. The
  list of events records, in order, each call the run makes to the tracer and to the
  profiled function. \<open>take_snapshot\<close> raises when the tracer is not tracing, and
  \<open>stop\<close> drops the traces.
\<close>

datatype event = EvStart | EvSnapshot | EvCall | EvStop

record world =
  tracing :: bool
  traces :: "trace list"
  events :: "event list"

definition tracemalloc_start :: "world \<Rightarrow> world" where
  "tracemalloc_start w = w\<lparr>tracing := True, events := events w @ [EvStart]\<rparr>"

definition take_snapshot :: "world \<Rightarrow> error + (Snapshot \<times> world)" where
  "take_snapshot w =
     (if tracing w then Inr (traces w, w\<lparr>events := events w @ [EvSnapshot]\<rparr>)
      else Inl RuntimeError)"

definition tracemalloc_stop :: "world \<Rightarrow> world" where
  "tracemalloc_stop w = w\<lparr>tracing := False, traces := [], events := events w @ [EvStop]\<rparr>"

definition call_func :: "Callable \<Rightarrow> world \<Rightarrow> error + world" where
  "call_func f w =
     (case invoke f (traces w) of
        Inl e \<Rightarrow> Inl e
      | Inr ts \<Rightarrow> Inr (w\<lparr>traces := ts, events := events w @ [EvCall]\<rparr>))"

text \<open>
  The body of \<open>for i in range(1, settings.run_count + 1)\<close>, over the list of the
  values of \<open>i\<close>.
\<close>

fun profile_loop ::
  "ProfileRunSettings \<Rightarrow> int list \<Rightarrow> SnapshotRun list \<Rightarrow> world
     \<Rightarrow> error + (SnapshotRun list \<times> world)" where
  "profile_loop s [] runs w = Inr (runs, w)"
| "profile_loop s (i # is) runs w =
     (case call_func (func s) w of
        Inl e \<Rightarrow> Inl e
      | Inr w1 \<Rightarrow>
          (case take_snapshot w1 of
             Inl e \<Rightarrow> Inl e
           | Inr (snap, w2) \<Rightarrow>
               profile_loop s is
                 (runs @ [\<lparr>iteration = i, snapshot = snap, settings = s\<rparr>]) w2))"

definition profile_func :: "ProfileRunSettings \<Rightarrow> world \<Rightarrow> error + (ProfileRun \<times> world)" where
  "profile_func s w =
     (case take_snapshot (tracemalloc_start w) of
        Inl e \<Rightarrow> Inl e
      | Inr (snap0, w1) \<Rightarrow>
          (let initial_snapshot = \<lparr>iteration = 0, snapshot = snap0, settings = s\<rparr>
           in case profile_loop s [1..run_count s] [initial_snapshot] w1 of
                Inl e \<Rightarrow> Inl e
              | Inr (runs, w2) \<Rightarrow>
                  Inr (\<lparr>snapshot_runs = runs,
                        func_file_names_run = func_file_names s,
                        func_name = str_Callable (func s)\<rparr>,
                       tracemalloc_stop w2)))"

text \<open>
  The construction of \<open>ProfileRunSettings\<close>: the \<open>dataclass\<close> stores its arguments; the
  omitted ones take the defaults 3, \<open>LINE_NUM\<close>, 10 and \<open>True\<close>.
\<close>

definition ProfileRunSettings_init ::
  "Callable \<Rightarrow> string list \<Rightarrow> int \<Rightarrow> TraceKeyType \<Rightarrow> int \<Rightarrow> bool \<Rightarrow> error + ProfileRunSettings" where
  "ProfileRunSettings_init f names rc kt lim ex =
     Inr \<lparr>func = f, func_file_names = names, run_count = rc, key_type = kt,
          limit = lim, exclusive_filter = ex\<rparr>"

definition ProfileRunSettings_default :: "Callable \<Rightarrow> string list \<Rightarrow> error + ProfileRunSettings" where
  "ProfileRunSettings_default f names = ProfileRunSettings_init f names 3 LINE_NUM 10 True"

section \<open>Reading a rendered report\<close>

text \<open>\<open>sub in text\<close>, and the same test on the result of a rendering that may raise.\<close>

fun contains :: "string \<Rightarrow> string \<Rightarrow> bool" where
  "contains sub [] = (sub = [])"
| "contains sub (c # cs) = (if prefix sub (c # cs) then True else contains sub cs)"

definition report_contains :: "string \<Rightarrow> error + string \<Rightarrow> bool" where
  "report_contains sub r = (case r of Inr text \<Rightarrow> contains sub text | Inl _ \<Rightarrow> False)"

section \<open>Example data\<close>

text \<open>
  A runtime for the examples: one source line can be read, the sizes of the examples are
  multiples of 1024 (where the float text is the quotient followed by \<open>.0\<close>), the file
  names hold no quote and no wildcard.
\<close>

definition example_runtime :: runtime where
  "example_runtime =
     \<lparr>getline = (\<lambda>name lineno.
         if name = ''letters.py'' \<and> lineno = 5 then ''    return list(letters)'' @ NL
         else ''''),
      kib_text = (\<lambda>n. str_int (n div 1024) @ ''.0''),
      repr_text = (\<lambda>s. [CHR 0x27] @ s @ [CHR 0x27]),
      fnmatch = (\<lambda>name pattern. name = pattern),
      tracemalloc_file = ''tracemalloc.py''\<rparr>"

definition letters_trace :: trace where
  "letters_trace =
     \<lparr>trace_size = 1024, trace_recent = (''letters.py'', 5), trace_older = [(''run.py'', 19)]\<rparr>"

definition numbers_trace :: trace where
  "numbers_trace =
     \<lparr>trace_size = 3072, trace_recent = (''numbers.py'', 3), trace_older = [(''run.py'', 19)]\<rparr>"

definition numbers_trace2 :: trace where
  "numbers_trace2 =
     \<lparr>trace_size = 2048, trace_recent = (''numbers.py'', 8), trace_older = []\<rparr>"

text \<open>A target function that allocates one more block at \<open>letters.py:5\<close> on every call.\<close>

definition example_func :: Callable where
  "example_func =
     \<lparr>invoke = (\<lambda>ts. Inr (ts @ [letters_trace])), str_Callable = ''<function run>''\<rparr>"

text \<open>A target function that always raises.\<close>

definition failing_func :: Callable where
  "failing_func =
     \<lparr>invoke = (\<lambda>ts. Inl (TargetError ''boom'')), str_Callable = ''<function fail>''\<rparr>"

definition example_settings :: ProfileRunSettings where
  "example_settings =
     \<lparr>func = example_func, func_file_names = [''letters.py'', ''numbers.py''],
      run_count = 2, key_type = LINE_NUM, limit = 1, exclusive_filter = True\<rparr>"

definition example_view :: SnapshotRun where
  "example_view =
     \<lparr>iteration = 1,
      snapshot = [letters_trace, numbers_trace, numbers_trace2, letters_trace],
      settings = example_settings\<rparr>"

definition idle_world :: world where
  "idle_world = \<lparr>tracing = False, traces = [], events = []\<rparr>"

text \<open>The report of \<open>example_settings\<close> run from \<open>idle_world\<close>.\<close>

definition growth_report :: ProfileRun where
  "growth_report =
     \<lparr>snapshot_runs =
        [\<lparr>iteration = 0, snapshot = [], settings = example_settings\<rparr>,
         \<lparr>iteration = 1, snapshot = [letters_trace], settings = example_settings\<rparr>,
         \<lparr>iteration = 2, snapshot = [letters_trace, letters_trace],
          settings = example_settings\<rparr>],
      func_file_names_run = [''letters.py'', ''numbers.py''],
      func_name = ''<function run>''\<rparr>"

text \<open>The same view under a negative limit and under the limit 0.\<close>

definition negative_limit_view :: SnapshotRun where
  "negative_limit_view = example_view\<lparr>settings := example_settings\<lparr>limit := - 1\<rparr>\<rparr>"

definition zero_limit_view :: SnapshotRun where
  "zero_limit_view = example_view\<lparr>settings := example_settings\<lparr>limit := 0\<rparr>\<rparr>"

text \<open>A ranked entry for generated code, whose source line cannot be read.\<close>

definition unresolved_entry :: StatisticRun where
  "unresolved_entry =
     StatisticRun_init 0
       \<lparr>traceback = Traceback_init (''<string>'', 1) [], size_stat = 3072, count_stat = 1\<rparr>"

text \<open>
  Each snapshot of a list of views, after the first, is what one call of the function
  makes of the traces of the snapshot before it.
\<close>

fun invoked_between :: "Callable \<Rightarrow> SnapshotRun list \<Rightarrow> bool" where
  "invoked_between f [] = True"
| "invoked_between f [a] = True"
| "invoked_between f (a # b # rest) =
     (invoke f (snapshot a) = Inr (snapshot b) \<and> invoked_between f (b # rest))"

text \<open>Settings with no run, and settings with a negative run count and a target that raises.\<close>

definition zero_settings :: ProfileRunSettings where
  "zero_settings = example_settings\<lparr>run_count := 0\<rparr>"

definition negative_settings :: ProfileRunSettings where
  "negative_settings = example_settings\<lparr>func := failing_func, run_count := - 3\<rparr>"

text \<open>The report of \<open>zero_settings\<close> run from \<open>idle_world\<close>.\<close>

definition zero_report :: ProfileRun where
  "zero_report =
     \<lparr>snapshot_runs = [\<lparr>iteration = 0, snapshot = [], settings = zero_settings\<rparr>],
      func_file_names_run = [''letters.py'', ''numbers.py''],
      func_name = ''<function run>''\<rparr>"

text \<open>The rendering of a view of iteration 0 without any entry, under a limit of 1.\<close>

definition before_run_text :: string where
  "before_run_text =
     NL @ ''## Snapshot Before Run'' @ NL @ ''### Top 1 Memory Hogs:'' @ NL @ NL @ NL
     @ ''### Summary:'' @ NL @ TAB @ ''Top Total Size: '' @ NL
     @ TAB @ ''Remaining Total Size: ''"

section \<open>Ranked lists: slices and positions\<close>

lemma map_statistic_enumerate:
  "map statistic (map (\<lambda>(i, stat). StatisticRun_init (int i) stat) (enumerate n xs)) = xs"
  by (induction xs arbitrary: n) (simp_all add: StatisticRun_init_def)

lemma map_position_enumerate:
  "map position (map (\<lambda>(i, stat). StatisticRun_init (int i) stat) (enumerate n xs))
     = map (\<lambda>i. int i + 1) [n..<n + length xs]"
  by (induction xs arbitrary: n) (simp_all add: StatisticRun_init_def upt_rec)

lemma ranks_from_one: "map (\<lambda>i. int i + 1) [0..<n] = [1..int n]"
proof (induction n)
  case 0
  show ?case by simp
next
  case (Suc n)
  have "[1..int (Suc n)] = [1..int n] @ [int n + 1]"
    using upto_rec2 [of 1 "int n + 1"] by (simp add: add.commute)
  with Suc show ?case by simp
qed

lemma slice_append: "slice_to xs i @ slice_from xs i = xs"
  by (simp add: slice_to_def slice_from_def)

lemma slice_to_zero: "slice_to xs 0 = []"
  by (simp add: slice_to_def slice_bound_def)

lemma slice_from_zero: "slice_from xs 0 = xs"
  by (simp add: slice_from_def slice_bound_def)

text \<open>
  Claim C9. For every snapshot view and every integer \<open>limit\<close>, negative ones included,
  the statistics carried by \<open>top_stats\<close> followed by those carried by \<open>remaining_stats\<close>
  are, element for element and in order, the grouped statistics of the filtered
  snapshot: the two slices at \<open>limit\<close> always partition the list.
\<close>

theorem top_remaining_partition:
  "map statistic (top_stats rt sr) @ map statistic (remaining_stats rt sr)
     = statistics (key_type (settings sr)) (filtered_snapshot rt sr)"
  unfolding top_stats_def remaining_stats_def
  by (simp only: map_statistic_enumerate slice_append)

theorem top_remaining_partition_witness:
  "limit (settings negative_limit_view) = - 1
   \<and> length (top_stats example_runtime negative_limit_view) = 2
   \<and> length (remaining_stats example_runtime negative_limit_view) = 1
   \<and> map statistic (top_stats example_runtime negative_limit_view)
       @ map statistic (remaining_stats example_runtime negative_limit_view)
       = statistics (key_type (settings negative_limit_view))
           (filtered_snapshot example_runtime negative_limit_view)"
proof -
  have a: "limit (settings negative_limit_view) = - 1"
    by (simp add: negative_limit_view_def)
  have b: "length (top_stats example_runtime negative_limit_view) = 2"
    by code_simp
  have c: "length (remaining_stats example_runtime negative_limit_view) = 1"
    by code_simp
  show ?thesis
    using a b c top_remaining_partition [of example_runtime negative_limit_view] by simp
qed

text \<open>
  Claim C8. Under a limit of 0 every snapshot view has no top entry, its remaining
  entries carry all the grouped statistics of the filtered snapshot, and the summary of
  the top entries is the empty string, not the text of a zero.
\<close>

theorem limit_zero_view:
  assumes "limit (settings sr) = 0"
  shows "top_stats rt sr = []
     \<and> map statistic (remaining_stats rt sr)
         = statistics (key_type (settings sr)) (filtered_snapshot rt sr)
     \<and> top_stats_summary rt sr = ''''"
proof -
  have top: "top_stats rt sr = []"
    using assms by (simp add: top_stats_def slice_to_zero)
  have rest: "map statistic (remaining_stats rt sr)
      = statistics (key_type (settings sr)) (filtered_snapshot rt sr)"
    unfolding remaining_stats_def using assms
    by (simp only: map_statistic_enumerate slice_from_zero)
  have "top_stats_summary rt sr = ''''"
    by (simp add: top_stats_summary_def total_size_line_def top)
  with top rest show ?thesis by simp
qed

theorem limit_zero_view_witness:
  "limit (settings zero_limit_view) = 0
   \<and> top_stats example_runtime zero_limit_view = []
   \<and> length (remaining_stats example_runtime zero_limit_view) = 3
   \<and> map statistic (remaining_stats example_runtime zero_limit_view)
       = statistics (key_type (settings zero_limit_view))
           (filtered_snapshot example_runtime zero_limit_view)
   \<and> top_stats_summary example_runtime zero_limit_view = ''''"
proof -
  have a: "limit (settings zero_limit_view) = 0"
    by (simp add: zero_limit_view_def)
  have b: "length (remaining_stats example_runtime zero_limit_view) = 3"
    by code_simp
  show ?thesis
    using a b limit_zero_view [OF a, of example_runtime] by simp
qed

text \<open>
  Claim C2, as stated: the positions carried by the top entries followed by those of the
  remaining entries are \<open>1, 2, ..., n\<close> for the \<open>n\<close> filtered entries. It fails: each list
  is enumerated from 0 on its own slice, so the positions restart at 1 in the remaining
  entries. With three groups and a limit of 1 the positions are \<open>1, 1, 2\<close>.
\<close>

theorem ranks_restart_counterexample:
  "map position
     (top_stats example_runtime example_view @ remaining_stats example_runtime example_view)
     \<noteq> [1..int (length (statistics (key_type (settings example_view))
                        (filtered_snapshot example_runtime example_view)))]"
proof -
  have a: "map position
      (top_stats example_runtime example_view @ remaining_stats example_runtime example_view)
      = [1, 1, 2]"
    by code_simp
  have b: "length (statistics (key_type (settings example_view))
      (filtered_snapshot example_runtime example_view)) = 3"
    by code_simp
  have c: "[1..int 3] = [1, 2, 3]"
    by code_simp
  show ?thesis
    unfolding a b c by simp
qed

text \<open>
  Claim C2, amended. For every snapshot view and every integer limit, the lengths of the
  top and of the remaining entries add up to the number of filtered entries; the
  positions of the top entries are \<open>1, ..., length top\<close> and the positions of the
  remaining entries are \<open>1, ..., length remaining\<close>, each list counted from 1.
\<close>

theorem ranks_per_list:
  "length (top_stats rt sr) + length (remaining_stats rt sr)
     = length (statistics (key_type (settings sr)) (filtered_snapshot rt sr))
   \<and> map position (top_stats rt sr) = [1..int (length (top_stats rt sr))]
   \<and> map position (remaining_stats rt sr) = [1..int (length (remaining_stats rt sr))]"
proof -
  let ?all = "statistics (key_type (settings sr)) (filtered_snapshot rt sr)"
  have "length (slice_to ?all (limit (settings sr)))
      + length (slice_from ?all (limit (settings sr))) = length ?all"
    using slice_append [of ?all "limit (settings sr)"] by (metis length_append)
  then have len: "length (top_stats rt sr) + length (remaining_stats rt sr) = length ?all"
    by (simp add: top_stats_def remaining_stats_def)
  have top: "map position (top_stats rt sr) = [1..int (length (top_stats rt sr))]"
    unfolding top_stats_def
    by (simp only: map_position_enumerate) (simp add: ranks_from_one)
  have rest: "map position (remaining_stats rt sr) = [1..int (length (remaining_stats rt sr))]"
    unfolding remaining_stats_def
    by (simp only: map_position_enumerate) (simp add: ranks_from_one)
  from len top rest show ?thesis by simp
qed

theorem ranks_per_list_witness:
  "length (top_stats example_runtime example_view)
     + length (remaining_stats example_runtime example_view) = 3
   \<and> map position (top_stats example_runtime example_view) = [1]
   \<and> map position (remaining_stats example_runtime example_view) = [1, 2]"
proof -
  have a: "length (top_stats example_runtime example_view) = 1"
    by code_simp
  have b: "length (remaining_stats example_runtime example_view) = 2"
    by code_simp
  have c: "[1..int 1] = [1]" "[1..int 2] = [1, 2]"
    by code_simp+
  show ?thesis
    using ranks_per_list [of example_runtime example_view] a b c by simp
qed

section \<open>Constructing the settings\<close>

text \<open>
  Claim C3, as stated: constructing the settings with a negative run count or a negative
  limit fails. It does not: the class is a plain \<open>dataclass\<close> without any check, and
  with both values at \<open>-1\<close> the construction returns the settings.
\<close>

theorem settings_negative_counterexample:
  "\<not> isl (ProfileRunSettings_init example_func [] (- 1) LINE_NUM (- 1) True)
   \<and> ProfileRunSettings_init example_func [] (- 1) LINE_NUM (- 1) True
       = Inr \<lparr>func = example_func, func_file_names = [], run_count = - 1,
              key_type = LINE_NUM, limit = - 1, exclusive_filter = True\<rparr>"
  by (simp add: ProfileRunSettings_init_def)

text \<open>
  Claim C3, amended. Constructing the settings never fails: for every run count and every
  limit, negative ones included, it returns the settings holding the values given, and
  does nothing else.
\<close>

theorem settings_construction_total:
  "\<not> isl (ProfileRunSettings_init f names rc kt lim ex)
   \<and> ProfileRunSettings_init f names rc kt lim ex
       = Inr \<lparr>func = f, func_file_names = names, run_count = rc, key_type = kt,
              limit = lim, exclusive_filter = ex\<rparr>"
  by (simp add: ProfileRunSettings_init_def)

theorem settings_construction_total_witness:
  "\<exists>s. ProfileRunSettings_default failing_func [''letters.py''] = Inr s
       \<and> run_count s = 3 \<and> limit s = 10 \<and> key_type s = LINE_NUM \<and> exclusive_filter s"
  using settings_construction_total [of failing_func "[''letters.py'']" 3 LINE_NUM 10 True]
  by (simp add: ProfileRunSettings_default_def)

section \<open>Rendering a ranked entry\<close>

lemma strip_empty: "strip [] = []"
  by (simp add: strip_def)

text \<open>
  Claim C6 says that an entry whose source line cannot be read is rendered as its file
  trace alone. The code renders a second line holding two tab characters: \<open>getline\<close>
  returns the empty string for such a line, never \<open>None\<close>, so the test \<open>is not None\<close> of
  \<open>line_trace\<close> always holds and \<open>__str__\<close> always appends the line trace. The rendering
  itself does not raise.
\<close>

theorem unresolved_line_renders_blank:
  assumes "getline rt (fst (frame0 (traceback (statistic sr))))
             (snd (frame0 (traceback (statistic sr)))) = ''''"
  shows "line_trace rt sr = Some (TAB @ TAB)
     \<and> str_StatisticRun rt sr = file_trace rt sr @ NL @ TAB @ TAB"
proof -
  have lt: "line_trace rt sr = Some (TAB @ TAB)"
    using assms by (simp add: line_trace_def Let_def strip_empty)
  then show ?thesis
    by (simp add: str_StatisticRun_def)
qed

theorem unresolved_line_renders_blank_witness:
  "getline example_runtime ''<string>'' 1 = ''''
   \<and> str_StatisticRun example_runtime unresolved_entry
       = TAB @ ''#1: 3.0KiB -> <string>:1 (traces: None)'' @ NL @ TAB @ TAB"
proof -
  have f: "frame0 (traceback (statistic unresolved_entry)) = (''<string>'', 1)"
    by (simp add: unresolved_entry_def StatisticRun_init_def Traceback_init_def)
  have g: "getline example_runtime ''<string>'' 1 = ''''"
    by (simp add: example_runtime_def)
  have h: "file_trace example_runtime unresolved_entry
      = TAB @ ''#1: 3.0KiB -> <string>:1 (traces: None)''"
    by code_simp
  show ?thesis
    using unresolved_line_renders_blank [of example_runtime unresolved_entry] f g h by simp
qed

section \<open>The run: snapshots, calls and comparisons\<close>

lemma invoked_between_snoc:
  "invoked_between f (runs @ [x])
     = (invoked_between f runs
        \<and> (if runs = [] then True else invoke f (snapshot (last runs)) = Inr (snapshot x)))"
  by (induction f runs rule: invoked_between.induct) auto

lemma profile_loop_ok:
  assumes total: "\<forall>ts. \<exists>ts'. invoke (func s) ts = Inr ts'"
  shows "tracing w \<Longrightarrow> runs \<noteq> [] \<Longrightarrow> snapshot (last runs) = traces w
     \<Longrightarrow> invoked_between (func s) runs
     \<Longrightarrow> \<exists>runs' w'. profile_loop s js runs w = Inr (runs', w')
           \<and> map iteration runs' = map iteration runs @ js
           \<and> tracing w'
           \<and> events w' = events w @ concat (map (\<lambda>_. [EvCall, EvSnapshot]) js)
           \<and> invoked_between (func s) runs'
           \<and> hd runs' = hd runs"
proof (induction js arbitrary: runs w)
  case Nil
  then show ?case by simp
next
  case (Cons j js)
  from total obtain ts' where inv: "invoke (func s) (traces w) = Inr ts'"
    by blast
  let ?wb = "w\<lparr>traces := ts', events := events w @ [EvCall]\<rparr>"
  let ?wc = "?wb\<lparr>events := events ?wb @ [EvSnapshot]\<rparr>"
  let ?runs = "runs @ [\<lparr>iteration = j, snapshot = ts', settings = s\<rparr>]"
  have call: "call_func (func s) w = Inr ?wb"
    by (simp add: call_func_def inv)
  have snap: "take_snapshot ?wb = Inr (ts', ?wc)"
    using Cons.prems(1) by (simp add: take_snapshot_def)
  have step: "profile_loop s (j # js) runs w = profile_loop s js ?runs ?wc"
    by (simp add: call snap)
  have chain: "invoked_between (func s) ?runs"
    using Cons.prems by (simp add: invoked_between_snoc inv)
  have "\<exists>runs' w'. profile_loop s js ?runs ?wc = Inr (runs', w')
           \<and> map iteration runs' = map iteration ?runs @ js
           \<and> tracing w'
           \<and> events w' = events ?wc @ concat (map (\<lambda>_. [EvCall, EvSnapshot]) js)
           \<and> invoked_between (func s) runs'
           \<and> hd runs' = hd ?runs"
    using Cons.prems(1) chain by (intro Cons.IH) simp_all
  then show ?case
    unfolding step using Cons.prems(2) by simp
qed

lemma fold_enumerate_index:
  "fold (\<lambda>(i, _). g i) (enumerate k xs) acc = fold g [k..<k + length xs] acc"
  by (induction xs arbitrary: k acc) (simp_all add: upt_rec)

lemma comparisons_fold:
  "fold (\<lambda>i acc. if i \<noteq> 0 then acc @ [c (i - 1)] else acc) [0..<n] [] = map c [0..<n - 1]"
proof (induction n)
  case 0
  show ?case by simp
next
  case (Suc n)
  show ?case
  proof (cases n)
    case 0
    then show ?thesis by simp
  next
    case (Suc m)
    with Suc.IH show ?thesis by simp
  qed
qed

lemma comparisons_eq:
  "comparisons rt pr
     = map (\<lambda>i. compare rt (snapshot_runs pr ! i) (snapshot_runs pr ! Suc i))
         [0..<length (snapshot_runs pr) - 1]"
proof -
  let ?c = "\<lambda>i. compare rt (snapshot_runs pr ! i) (snapshot_runs pr ! Suc i)"
  have same: "(\<lambda>(i, _) acc.
             if i \<noteq> 0
             then acc @ [compare rt (snapshot_runs pr ! (i - 1)) (snapshot_runs pr ! i)]
             else acc)
       = (\<lambda>(i, _). (\<lambda>i acc. if i \<noteq> 0 then acc @ [?c (i - 1)] else acc) i)"
    by (auto simp: fun_eq_iff)
  show ?thesis
    unfolding comparisons_def same fold_enumerate_index
    using comparisons_fold [of ?c "length (snapshot_runs pr)"] by simp
qed

lemma length_comparisons: "length (comparisons rt pr) = length (snapshot_runs pr) - 1"
  by (simp add: comparisons_eq)

lemma upto_from_zero: "0 \<le> n \<Longrightarrow> 0 # [1..n] = [0..n]"
  using upto_rec1 [of 0 n] by simp

text \<open>
  Whenever the run returns a report, whatever the target function does on other
  traces, the iterations, the comparisons and the events are these.
\<close>

lemma profile_loop_returns:
  "profile_loop s js runs w = Inr (runs', w')
     \<Longrightarrow> map iteration runs' = map iteration runs @ js
         \<and> events w' = events w @ concat (map (\<lambda>_. [EvCall, EvSnapshot]) js)"
proof (induction js arbitrary: runs w)
  case Nil
  then show ?case by simp
next
  case (Cons j js)
  from Cons.prems obtain wb snap wc where
    call: "call_func (func s) w = Inr wb" and
    snap: "take_snapshot wb = Inr (snap, wc)" and
    rest: "profile_loop s js (runs @ [\<lparr>iteration = j, snapshot = snap, settings = s\<rparr>]) wc
             = Inr (runs', w')"
    by (auto split: sum.splits prod.splits)
  have "events wb = events w @ [EvCall]"
    using call by (auto simp: call_func_def split: sum.splits)
  moreover have "events wc = events wb @ [EvSnapshot]"
    using snap by (auto simp: take_snapshot_def split: if_splits)
  ultimately show ?case
    using Cons.IH [OF rest] by simp
qed

lemma profile_func_returns:
  assumes "profile_func s w = Inr (r, w')"
  shows "map iteration (snapshot_runs r) = 0 # [1..run_count s]
     \<and> length (comparisons rt r) = length [1..run_count s]
     \<and> events w' = events w @ [EvStart, EvSnapshot]
           @ concat (map (\<lambda>_. [EvCall, EvSnapshot]) [1..run_count s]) @ [EvStop]"
proof -
  let ?wa = "tracemalloc_start w"
  let ?wb = "?wa\<lparr>events := events ?wa @ [EvSnapshot]\<rparr>"
  let ?first = "\<lparr>iteration = 0, snapshot = traces w, settings = s\<rparr>"
  have snap0: "take_snapshot ?wa = Inr (traces w, ?wb)"
    by (simp add: take_snapshot_def tracemalloc_start_def)
  from assms obtain runs' wc where
    loop: "profile_loop s [1..run_count s] [?first] ?wb = Inr (runs', wc)" and
    r: "snapshot_runs r = runs'" and w': "w' = tracemalloc_stop wc"
    by (auto simp: profile_func_def snap0 split: sum.splits prod.splits)
  from profile_loop_returns [OF loop]
  have its: "map iteration runs' = 0 # [1..run_count s]"
    and evs: "events wc = events ?wb @ concat (map (\<lambda>_. [EvCall, EvSnapshot]) [1..run_count s])"
    by simp_all
  have "length runs' = Suc (length [1..run_count s])"
    using arg_cong [OF its, of length] by simp
  then have "length (comparisons rt r) = length [1..run_count s]"
    by (simp add: length_comparisons r)
  with its evs show ?thesis
    by (simp add: r w' tracemalloc_stop_def tracemalloc_start_def)
qed

text \<open>
  Claim C5. For settings with a run count \<open>R \<ge> 0\<close> and a target function that does not
  raise, the run returns a report with \<open>R + 1\<close> snapshot views, of iterations \<open>0, ..., R\<close>,
  and \<open>R\<close> comparisons. The first snapshot holds the traces as they were before any call,
  every later snapshot is what one call of the target makes of the snapshot before it, and
  the run starts the tracer, takes a snapshot, then \<open>R\<close> times calls the target and takes
  a snapshot, and stops the tracer.
\<close>

theorem profile_func_counts:
  assumes "0 \<le> run_count s" and "\<forall>ts. \<exists>ts'. invoke (func s) ts = Inr ts'"
  shows "\<exists>r w'. profile_func s w = Inr (r, w')
     \<and> int (length (snapshot_runs r)) = run_count s + 1
     \<and> map iteration (snapshot_runs r) = [0..run_count s]
     \<and> int (length (comparisons rt r)) = run_count s
     \<and> snapshot (hd (snapshot_runs r)) = traces w
     \<and> invoked_between (func s) (snapshot_runs r)
     \<and> events w' = events w @ [EvStart, EvSnapshot]
           @ concat (replicate (nat (run_count s)) [EvCall, EvSnapshot]) @ [EvStop]"
proof -
  let ?wa = "tracemalloc_start w"
  let ?wb = "?wa\<lparr>events := events ?wa @ [EvSnapshot]\<rparr>"
  let ?first = "\<lparr>iteration = 0, snapshot = traces w, settings = s\<rparr>"
  have snap0: "take_snapshot ?wa = Inr (traces w, ?wb)"
    by (simp add: take_snapshot_def tracemalloc_start_def)
  have "\<exists>runs' w'. profile_loop s [1..run_count s] [?first] ?wb = Inr (runs', w')
           \<and> map iteration runs' = map iteration [?first] @ [1..run_count s]
           \<and> tracing w'
           \<and> events w' = events ?wb @ concat (map (\<lambda>_. [EvCall, EvSnapshot]) [1..run_count s])
           \<and> invoked_between (func s) runs'
           \<and> hd runs' = hd [?first]"
    by (rule profile_loop_ok [OF assms(2)]) (simp_all add: tracemalloc_start_def)
  then obtain runs' w' where
    loop: "profile_loop s [1..run_count s] [?first] ?wb = Inr (runs', w')" and
    its: "map iteration runs' = 0 # [1..run_count s]" and
    evs: "events w' = events ?wb @ concat (map (\<lambda>_. [EvCall, EvSnapshot]) [1..run_count s])" and
    chain: "invoked_between (func s) runs'" and
    first: "hd runs' = ?first"
    by auto
  let ?r = "\<lparr>snapshot_runs = runs', func_file_names_run = func_file_names s,
             func_name = str_Callable (func s)\<rparr>"
  have res: "profile_func s w = Inr (?r, tracemalloc_stop w')"
    by (simp add: profile_func_def snap0 loop)
  have len: "length runs' = Suc (nat (run_count s))"
    using arg_cong [OF its, of length] by simp
  have reps: "concat (map (\<lambda>_. [EvCall, EvSnapshot]) [1..run_count s])
      = concat (replicate (nat (run_count s)) [EvCall, EvSnapshot])"
    by (simp add: map_replicate_const)
  have "int (length (snapshot_runs ?r)) = run_count s + 1"
    using len assms(1) by simp
  moreover have "map iteration (snapshot_runs ?r) = [0..run_count s]"
    using its upto_from_zero [OF assms(1)] by simp
  moreover have "int (length (comparisons rt ?r)) = run_count s"
    using len assms(1) by (simp add: length_comparisons)
  moreover have "snapshot (hd (snapshot_runs ?r)) = traces w"
    using first by simp
  moreover have "invoked_between (func s) (snapshot_runs ?r)"
    using chain by simp
  moreover have "events (tracemalloc_stop w') = events w @ [EvStart, EvSnapshot]
           @ concat (replicate (nat (run_count s)) [EvCall, EvSnapshot]) @ [EvStop]"
    using evs reps by (simp add: tracemalloc_stop_def tracemalloc_start_def)
  ultimately show ?thesis
    using res by blast
qed

theorem profile_func_counts_witness:
  "0 \<le> run_count example_settings
   \<and> profile_func example_settings idle_world
       = Inr (growth_report,
              \<lparr>tracing = False, traces = [],
               events = [EvStart, EvSnapshot, EvCall, EvSnapshot, EvCall, EvSnapshot, EvStop]\<rparr>)
   \<and> length (snapshot_runs growth_report) = 3
   \<and> map iteration (snapshot_runs growth_report) = [0, 1, 2]
   \<and> length (comparisons example_runtime growth_report) = 2"
proof -
  have h1: "0 \<le> run_count example_settings"
    by (simp add: example_settings_def)
  have h2: "\<forall>ts. \<exists>ts'. invoke (func example_settings) ts = Inr ts'"
    by (simp add: example_settings_def example_func_def)
  have rc: "run_count example_settings = 2"
    by (simp add: example_settings_def)
  have up: "[1..2] = [1, 2::int]" "[0..2] = [0, 1, 2::int]"
    by (simp_all add: upto.simps)
  have run: "profile_func example_settings idle_world
      = Inr (growth_report,
             \<lparr>tracing = False, traces = [],
              events = [EvStart, EvSnapshot, EvCall, EvSnapshot, EvCall, EvSnapshot, EvStop]\<rparr>)"
    by (simp add: profile_func_def example_settings_def idle_world_def growth_report_def
        take_snapshot_def tracemalloc_start_def tracemalloc_stop_def call_func_def
        example_func_def up)
  from profile_func_counts [OF h1 h2, of idle_world example_runtime]
  have "int (length (snapshot_runs growth_report)) = 3
      \<and> map iteration (snapshot_runs growth_report) = [0, 1, 2]
      \<and> int (length (comparisons example_runtime growth_report)) = 2"
    unfolding run rc up by auto
  with h1 run show ?thesis by simp
qed

lemma str_SnapshotRun_run_count:
  "str_SnapshotRun rt (sr\<lparr>settings := (settings sr)\<lparr>run_count := k\<rparr>\<rparr>) = str_SnapshotRun rt sr"
  by (simp add: str_SnapshotRun_def top_stats_def remaining_stats_def top_stats_summary_def
      remaining_stats_summary_def filtered_snapshot_def exclusive_filtered_def
      inclusive_filtered_def)

lemma comparisons_single: "snapshot_runs pr = [v] \<Longrightarrow> comparisons rt pr = []"
  by (simp add: comparisons_eq)

lemma profile_func_no_run:
  assumes "run_count s < 1"
  shows "profile_func s w
     = Inr (\<lparr>snapshot_runs = [\<lparr>iteration = 0, snapshot = traces w, settings = s\<rparr>],
             func_file_names_run = func_file_names s,
             func_name = str_Callable (func s)\<rparr>,
            w\<lparr>tracing := False, traces := [],
              events := events w @ [EvStart, EvSnapshot, EvStop]\<rparr>)"
proof -
  have "[1..run_count s] = []"
    using assms by simp
  then show ?thesis
    by (simp add: profile_func_def take_snapshot_def tracemalloc_start_def tracemalloc_stop_def)
qed

text \<open>
  Claim C10. For settings with a negative run count, whatever the target function does,
  the run raises nothing, never calls the target (its events are start, snapshot, stop)
  and returns a report with the single snapshot view of iteration 0. A run count of 0
  gives the same final state, the same iterations and snapshots, no comparison either,
  and the same rendered text.
\<close>

theorem negative_run_count_like_zero:
  assumes "run_count s < 0"
  shows "\<exists>r r0 w'. profile_func s w = Inr (r, w')
     \<and> snapshot_runs r = [\<lparr>iteration = 0, snapshot = traces w, settings = s\<rparr>]
     \<and> events w' = events w @ [EvStart, EvSnapshot, EvStop]
     \<and> profile_func (s\<lparr>run_count := 0\<rparr>) w = Inr (r0, w')
     \<and> map iteration (snapshot_runs r0) = map iteration (snapshot_runs r)
     \<and> map snapshot (snapshot_runs r0) = map snapshot (snapshot_runs r)
     \<and> comparisons rt r = [] \<and> comparisons rt r0 = []
     \<and> str_ProfileRun rt r0 = str_ProfileRun rt r"
proof -
  let ?v = "\<lparr>iteration = 0, snapshot = traces w, settings = s\<rparr>"
  let ?r = "\<lparr>snapshot_runs = [?v], func_file_names_run = func_file_names s,
             func_name = str_Callable (func s)\<rparr>"
  let ?vz = "\<lparr>iteration = 0, snapshot = traces w, settings = s\<lparr>run_count := 0\<rparr>\<rparr>"
  let ?rz = "\<lparr>snapshot_runs = [?vz], func_file_names_run = func_file_names s,
              func_name = str_Callable (func s)\<rparr>"
  let ?w' = "w\<lparr>tracing := False, traces := [],
              events := events w @ [EvStart, EvSnapshot, EvStop]\<rparr>"
  have run: "profile_func s w = Inr (?r, ?w')"
    using assms by (intro profile_func_no_run) simp
  have run0: "profile_func (s\<lparr>run_count := 0\<rparr>) w = Inr (?rz, ?w')"
    using profile_func_no_run [of "s\<lparr>run_count := 0\<rparr>" w] by simp
  have c: "comparisons rt ?r = []" and c0: "comparisons rt ?rz = []"
    by (simp_all add: comparisons_single)
  have v: "str_SnapshotRun rt ?vz = str_SnapshotRun rt ?v"
    using str_SnapshotRun_run_count [where rt = rt and sr = ?v and k = 0] by simp
  have "str_ProfileRun rt ?rz = str_ProfileRun rt ?r"
    by (simp add: str_ProfileRun_def report_parts_def c c0 v)
  with run run0 c c0 show ?thesis
    by (intro exI [of _ ?r] exI [of _ ?rz] exI [of _ ?w']) simp
qed

theorem negative_run_count_like_zero_witness:
  "run_count negative_settings < 0
   \<and> invoke (func negative_settings) [] = Inl (TargetError ''boom'')
   \<and> (\<exists>r w'. profile_func negative_settings idle_world = Inr (r, w')
        \<and> map iteration (snapshot_runs r) = [0]
        \<and> events w' = [EvStart, EvSnapshot, EvStop])"
proof -
  have h: "run_count negative_settings < 0"
    by (simp add: negative_settings_def example_settings_def)
  have f: "invoke (func negative_settings) [] = Inl (TargetError ''boom'')"
    by (simp add: negative_settings_def example_settings_def failing_func_def)
  from negative_run_count_like_zero [OF h, of idle_world example_runtime]
  obtain r w' where "profile_func negative_settings idle_world = Inr (r, w')"
    and "snapshot_runs r = [\<lparr>iteration = 0, snapshot = traces idle_world,
                             settings = negative_settings\<rparr>]"
    and "events w' = events idle_world @ [EvStart, EvSnapshot, EvStop]"
    by blast
  then have "\<exists>r w'. profile_func negative_settings idle_world = Inr (r, w')
        \<and> map iteration (snapshot_runs r) = [0]
        \<and> events w' = [EvStart, EvSnapshot, EvStop]"
    by (simp add: idle_world_def)
  with h f show ?thesis by simp
qed

section \<open>The report of a run without calls\<close>

lemma report_text_single:
  assumes "snapshot_runs r = [v]"
  shows "str_ProfileRun rt r
     = Inr (join NL (take 11 (report_parts rt r (settings v)))
            @ NL @ NL @ ''# Profile Comparisons For '' @ func_name r @ NL)"
  using assms by (simp add: str_ProfileRun_def report_parts_def comparisons_single)

text \<open>
  Claim C7, as stated: with a run count of 0 the rendered text has no \<open>Comparison\<close>
  section. The text of such a report does contain \<open>Comparison\<close>: the heading
  \<open># Profile Comparisons For ...\<close> is written whether or not there is a comparison.
\<close>

theorem zero_runs_heading_counterexample:
  "run_count zero_settings = 0
   \<and> profile_func zero_settings idle_world
       = Inr (zero_report,
              \<lparr>tracing = False, traces = [], events = [EvStart, EvSnapshot, EvStop]\<rparr>)
   \<and> report_contains ''Comparison'' (str_ProfileRun example_runtime zero_report)"
proof -
  have a: "run_count zero_settings = 0"
    by (simp add: zero_settings_def)
  have b: "profile_func zero_settings idle_world
       = Inr (zero_report,
              \<lparr>tracing = False, traces = [], events = [EvStart, EvSnapshot, EvStop]\<rparr>)"
    using profile_func_no_run [of zero_settings idle_world]
    by (simp add: a zero_report_def idle_world_def zero_settings_def example_settings_def
        example_func_def)
  have c: "report_contains ''Comparison'' (str_ProfileRun example_runtime zero_report)"
    by code_simp
  from a b c show ?thesis by simp
qed

text \<open>
  Claim C7, amended. With a run count of 0 the report has exactly one snapshot view, of
  iteration 0, and no comparison; its rendered text ends with the heading
  \<open># Profile Comparisons For\<close> followed by the name of the target and a new line, with
  nothing after it: no comparison between snapshots is rendered.
\<close>

theorem zero_runs_report:
  assumes "run_count s = 0"
  shows "\<exists>r w' front. profile_func s w = Inr (r, w')
     \<and> snapshot_runs r = [\<lparr>iteration = 0, snapshot = traces w, settings = s\<rparr>]
     \<and> comparisons rt r = []
     \<and> str_ProfileRun rt r
         = Inr (front @ NL @ NL @ ''# Profile Comparisons For '' @ func_name r @ NL)"
proof -
  let ?v = "\<lparr>iteration = 0, snapshot = traces w, settings = s\<rparr>"
  let ?r = "\<lparr>snapshot_runs = [?v], func_file_names_run = func_file_names s,
             func_name = str_Callable (func s)\<rparr>"
  let ?w' = "w\<lparr>tracing := False, traces := [],
              events := events w @ [EvStart, EvSnapshot, EvStop]\<rparr>"
  have run: "profile_func s w = Inr (?r, ?w')"
    using assms by (intro profile_func_no_run) simp
  have none: "comparisons rt ?r = []"
    by (simp add: comparisons_single)
  have rendered: "str_ProfileRun rt ?r
      = Inr (join NL (take 11 (report_parts rt ?r (settings ?v)))
             @ NL @ NL @ ''# Profile Comparisons For '' @ func_name ?r @ NL)"
    by (rule report_text_single) simp
  from run none rendered show ?thesis
    by (intro exI [of _ ?r] exI [of _ ?w']
        exI [of _ "join NL (take 11 (report_parts rt ?r (settings ?v)))"]) simp
qed

theorem zero_runs_report_witness:
  "run_count zero_settings = 0
   \<and> (\<exists>w' front. profile_func zero_settings idle_world = Inr (zero_report, w')
        \<and> comparisons example_runtime zero_report = []
        \<and> str_ProfileRun example_runtime zero_report
            = Inr (front @ NL @ NL @ ''# Profile Comparisons For <function run>'' @ NL))"
proof -
  have a: "run_count zero_settings = 0"
    by (simp add: zero_settings_def)
  have r: "\<lparr>snapshot_runs = [\<lparr>iteration = 0, snapshot = traces idle_world,
                               settings = zero_settings\<rparr>],
            func_file_names_run = func_file_names zero_settings,
            func_name = str_Callable (func zero_settings)\<rparr> = zero_report"
    by (simp add: zero_report_def idle_world_def zero_settings_def example_settings_def
        example_func_def)
  from zero_runs_report [OF a, of idle_world example_runtime]
  obtain r w' front where "profile_func zero_settings idle_world = Inr (r, w')"
    and "snapshot_runs r = [\<lparr>iteration = 0, snapshot = traces idle_world,
                             settings = zero_settings\<rparr>]"
    and "comparisons example_runtime r = []"
    and "str_ProfileRun example_runtime r
         = Inr (front @ NL @ NL @ ''# Profile Comparisons For '' @ func_name r @ NL)"
    by blast
  moreover from this have "r = zero_report"
    using profile_func_no_run [of zero_settings idle_world] a r by simp
  ultimately have "\<exists>w' front. profile_func zero_settings idle_world = Inr (zero_report, w')
        \<and> comparisons example_runtime zero_report = []
        \<and> str_ProfileRun example_runtime zero_report
            = Inr (front @ NL @ NL @ ''# Profile Comparisons For <function run>'' @ NL)"
    by (auto simp: zero_report_def)
  with a show ?thesis by simp
qed

section \<open>The sections of the rendered report\<close>

lemma join_Cons_nonempty: "x \<noteq> [] \<Longrightarrow> join sep (x # xs) \<noteq> []"
  by (cases xs) simp_all

lemma str_SnapshotRun_nonempty: "str_SnapshotRun rt v \<noteq> []"
  by (simp add: str_SnapshotRun_def NL_def)

lemma views_text_nonempty:
  "runs \<noteq> [] \<Longrightarrow> join NL (map (str_SnapshotRun rt) runs) \<noteq> []"
  by (cases runs) (simp_all add: join_Cons_nonempty str_SnapshotRun_nonempty)

text \<open>
  Claim C4 says that the rendered report holds the rendering of every snapshot view
  exactly once, with no section repeated. The code renders the snapshot views twice: in
  every report of a non-empty list of views, the joined text of the views, which is not
  empty, is followed by the line \<open># Profile Comparisons For ...\<close> and by the same text
  of the views again, before the heading is written a second time for the comparisons.
\<close>

theorem report_repeats_snapshots:
  assumes "snapshot_runs pr = first # rest"
  shows "(let views = join NL (map (str_SnapshotRun rt) (snapshot_runs pr))
          in views \<noteq> []
             \<and> (\<exists>front behind. str_ProfileRun rt pr
                  = Inr (front @ views @ NL @ ''# Profile Comparisons For '' @ func_name pr
                         @ NL @ views @ behind)))"
proof -
  let ?views = "join NL (map (str_SnapshotRun rt) (snapshot_runs pr))"
  let ?front = "join NL (take 8 (report_parts rt pr (settings first))) @ NL"
  let ?behind = "NL @ NL @ ''# Profile Comparisons For '' @ func_name pr @ NL
               @ join NL (map (str_SnapshotDiffRun rt) (comparisons rt pr))"
  have "?views \<noteq> []"
    using assms by (intro views_text_nonempty) simp
  moreover have "str_ProfileRun rt pr
      = Inr (?front @ ?views @ NL @ ''# Profile Comparisons For '' @ func_name pr
             @ NL @ ?views @ ?behind)"
    using assms by (simp add: str_ProfileRun_def report_parts_def)
  ultimately show ?thesis
    unfolding Let_def by blast
qed

theorem report_repeats_snapshots_witness:
  "snapshot_runs zero_report = [\<lparr>iteration = 0, snapshot = [], settings = zero_settings\<rparr>]
   \<and> before_run_text \<noteq> []
   \<and> (\<exists>front behind. str_ProfileRun example_runtime zero_report
         = Inr (front @ before_run_text @ NL @ ''# Profile Comparisons For <function run>''
                @ NL @ before_run_text @ behind))"
proof -
  have runs: "snapshot_runs zero_report
      = [\<lparr>iteration = 0, snapshot = [], settings = zero_settings\<rparr>]"
    by (simp add: zero_report_def)
  have view: "str_SnapshotRun example_runtime
      \<lparr>iteration = 0, snapshot = [], settings = zero_settings\<rparr> = before_run_text"
    by code_simp
  have name: "func_name zero_report = ''<function run>''"
    by (simp add: zero_report_def)
  from report_repeats_snapshots [OF runs, of example_runtime]
  show ?thesis
    unfolding Let_def runs by (simp add: view name runs)
qed

section \<open>The sign of a difference\<close>

text \<open>The groups of a snapshot have distinct keys, as the keys of a dictionary do.\<close>

lemma keys_stats_add:
  "map (\<lambda>s. Traceback_frames (traceback s)) (stats_add tb sz ss)
     = (if Traceback_frames tb \<in> set (map (\<lambda>s. Traceback_frames (traceback s)) ss)
        then map (\<lambda>s. Traceback_frames (traceback s)) ss
        else map (\<lambda>s. Traceback_frames (traceback s)) ss @ [Traceback_frames tb])"
  by (induction ss) auto

lemma distinct_stats_add:
  "distinct (map (\<lambda>s. Traceback_frames (traceback s)) ss)
     \<Longrightarrow> distinct (map (\<lambda>s. Traceback_frames (traceback s)) (stats_add tb sz ss))"
  by (simp add: keys_stats_add)

lemma distinct_fold_stats_add:
  "distinct (map (\<lambda>s. Traceback_frames (traceback s)) acc)
     \<Longrightarrow> distinct (map (\<lambda>s. Traceback_frames (traceback s))
           (fold (\<lambda>t stats. stats_add (key_traceback k t) (trace_size t) stats) snap acc))"
  by (induction snap arbitrary: acc) (simp_all add: distinct_stats_add)

lemma distinct_group_by:
  "distinct (map (\<lambda>s. Traceback_frames (traceback s)) (group_by k snap))"
  unfolding group_by_def by (rule distinct_fold_stats_add) simp

lemma pop_group_found:
  "distinct (map (\<lambda>s. Traceback_frames (traceback s)) old) \<Longrightarrow> p \<in> set old
     \<Longrightarrow> Traceback_frames (traceback p) = Traceback_frames tb
     \<Longrightarrow> fst (pop_group tb old) = Some p"
  by (induction old) (auto simp: split_def Let_def image_iff)

lemma pop_group_keeps:
  "p \<in> set old \<Longrightarrow> Traceback_frames (traceback p) \<noteq> Traceback_frames tb
     \<Longrightarrow> p \<in> set (snd (pop_group tb old))"
  by (induction old) (auto simp: split_def Let_def)

lemma pop_group_subset: "set (snd (pop_group tb old)) \<subseteq> set old"
  by (induction old) (auto simp: split_def Let_def)

lemma pop_group_distinct:
  "distinct (map (\<lambda>s. Traceback_frames (traceback s)) old)
     \<Longrightarrow> distinct (map (\<lambda>s. Traceback_frames (traceback s)) (snd (pop_group tb old)))"
proof (induction old)
  case Nil
  show ?case by simp
next
  case (Cons s ss)
  have "Traceback_frames (traceback s)
      \<notin> (\<lambda>s. Traceback_frames (traceback s)) ` set (snd (pop_group tb ss))"
    using Cons.prems pop_group_subset [of tb ss] by auto
  with Cons show ?case
    by (simp add: split_def Let_def)
qed

lemma compare_new_group_both:
  "distinct (map (\<lambda>s. Traceback_frames (traceback s)) old)
     \<Longrightarrow> distinct (map (\<lambda>s. Traceback_frames (traceback s)) new)
     \<Longrightarrow> a \<in> set new \<Longrightarrow> p \<in> set old
     \<Longrightarrow> Traceback_frames (traceback p) = Traceback_frames (traceback a)
     \<Longrightarrow> \<lparr>traceback_diff = traceback a,
          size_new = size_stat a, size_diff = size_stat a - size_stat p,
          count_new = count_stat a, count_diff = count_stat a - count_stat p\<rparr>
         \<in> set (fst (compare_new_group old new))"
proof (induction new arbitrary: old)
  case Nil
  then show ?case by simp
next
  case (Cons stat new)
  show ?case
  proof (cases "a = stat")
    case True
    have "fst (pop_group (traceback stat) old) = Some p"
      using Cons.prems True by (intro pop_group_found) simp_all
    then show ?thesis
      using True by (simp add: split_def Let_def)
  next
    case False
    then have a: "a \<in> set new"
      using Cons.prems(3) by simp
    then have "Traceback_frames (traceback a) \<noteq> Traceback_frames (traceback stat)"
      using Cons.prems(2) by (auto simp: image_iff)
    then have "p \<in> set (snd (pop_group (traceback stat) old))"
      using Cons.prems(4,5) by (intro pop_group_keeps) simp_all
    moreover have "distinct (map (\<lambda>s. Traceback_frames (traceback s))
        (snd (pop_group (traceback stat) old)))"
      using Cons.prems(1) by (rule pop_group_distinct)
    moreover have "distinct (map (\<lambda>s. Traceback_frames (traceback s)) new)"
      using Cons.prems(2) by simp
    ultimately have "\<lparr>traceback_diff = traceback a,
          size_new = size_stat a, size_diff = size_stat a - size_stat p,
          count_new = count_stat a, count_diff = count_stat a - count_stat p\<rparr>
         \<in> set (fst (compare_new_group (snd (pop_group (traceback stat) old)) new))"
      using a Cons.prems(5) by (intro Cons.IH) simp_all
    then show ?thesis
      by (simp add: split_def Let_def)
  qed
qed

lemma set_sort_reverse: "set (sort_reverse key xs) = set xs"
  by (simp add: sort_reverse_def)

lemma compare_to_both:
  assumes "a \<in> set (group_by k self)" and "p \<in> set (group_by k old_snapshot)"
    and "Traceback_frames (traceback p) = Traceback_frames (traceback a)"
  shows "\<lparr>traceback_diff = traceback a,
          size_new = size_stat a, size_diff = size_stat a - size_stat p,
          count_new = count_stat a, count_diff = count_stat a - count_stat p\<rparr>
         \<in> set (compare_to self old_snapshot k)"
proof -
  have "\<lparr>traceback_diff = traceback a,
          size_new = size_stat a, size_diff = size_stat a - size_stat p,
          count_new = count_stat a, count_diff = count_stat a - count_stat p\<rparr>
         \<in> set (fst (compare_new_group (group_by k old_snapshot) (group_by k self)))"
    using assms by (intro compare_new_group_both distinct_group_by)
  then show ?thesis
    by (simp add: compare_to_def set_sort_reverse compare_grouped_stats_def split_def Let_def)
qed

lemma comparisons_nth:
  assumes "Suc i < length (snapshot_runs pr)"
  shows "comparisons rt pr ! i = compare rt (snapshot_runs pr ! i) (snapshot_runs pr ! Suc i)"
  using assms by (simp add: comparisons_eq)

text \<open>
  Claim C1 says that comparison \<open>i\<close> is the difference between the views \<open>i\<close> and
  \<open>i + 1\<close>, so that a group that grew from iteration \<open>i\<close> to iteration \<open>i + 1\<close> has a
  positive size difference. The code pairs the views as the claim says, but it calls
  \<open>compare_to\<close> on the snapshot of view \<open>i\<close> with the snapshot of view \<open>i + 1\<close> as its
  argument, and the tracer subtracts the argument (its old snapshot) from the receiver:
  a group present in both views is reported with the size in view \<open>i\<close> minus the size in
  view \<open>i + 1\<close>, which is negative when the group grew.
\<close>

theorem growth_has_negative_delta:
  assumes "Suc i < length (snapshot_runs pr)"
    and "a \<in> set (group_by (key_type (settings (snapshot_runs pr ! i)))
                   (filtered_snapshot rt (snapshot_runs pr ! i)))"
    and "b \<in> set (group_by (key_type (settings (snapshot_runs pr ! i)))
                   (filtered_snapshot rt (snapshot_runs pr ! Suc i)))"
    and "Traceback_frames (traceback b) = Traceback_frames (traceback a)"
    and "size_stat a < size_stat b"
  shows "iterations (comparisons rt pr ! i)
       = (iteration (snapshot_runs pr ! i), iteration (snapshot_runs pr ! Suc i))
     \<and> (\<exists>d \<in> set (diff (comparisons rt pr ! i)).
          traceback_diff d = traceback a
          \<and> size_diff d = size_stat a - size_stat b \<and> size_diff d < 0)"
proof -
  let ?d = "\<lparr>traceback_diff = traceback a,
          size_new = size_stat a, size_diff = size_stat a - size_stat b,
          count_new = count_stat a, count_diff = count_stat a - count_stat b\<rparr>"
  have nth: "comparisons rt pr ! i
      = compare rt (snapshot_runs pr ! i) (snapshot_runs pr ! Suc i)"
    using assms(1) by (rule comparisons_nth)
  have "?d \<in> set (compare_to (filtered_snapshot rt (snapshot_runs pr ! i))
                    (filtered_snapshot rt (snapshot_runs pr ! Suc i))
                    (key_type (settings (snapshot_runs pr ! i))))"
    using assms(2,3,4) by (rule compare_to_both)
  then have "?d \<in> set (diff (comparisons rt pr ! i))"
    by (simp add: nth compare_def SnapshotDiffRun_init_def)
  moreover have "size_diff ?d < 0"
    using assms(5) by simp
  ultimately have "\<exists>d \<in> set (diff (comparisons rt pr ! i)).
          traceback_diff d = traceback a
          \<and> size_diff d = size_stat a - size_stat b \<and> size_diff d < 0"
    by (intro bexI [of _ ?d]) simp_all
  then show ?thesis
    by (simp add: nth compare_def SnapshotDiffRun_init_def)
qed

theorem growth_has_negative_delta_witness:
  "Suc 1 < length (snapshot_runs growth_report)
   \<and> map (\<lambda>dr. (iterations dr, map size_diff (diff dr)))
         (comparisons example_runtime growth_report)
       = [((0, 1), [- 1024]), ((1, 2), [- 1024])]
   \<and> (\<exists>d \<in> set (diff (comparisons example_runtime growth_report ! 1)).
        size_diff d = 1024 - 2048 \<and> size_diff d < 0)"
proof -
  let ?a = "\<lparr>traceback = Traceback_init (''letters.py'', 5) [],
             size_stat = 1024, count_stat = 1\<rparr>"
  let ?b = "\<lparr>traceback = Traceback_init (''letters.py'', 5) [],
             size_stat = 2048, count_stat = 2\<rparr>"
  have h1: "Suc 1 < length (snapshot_runs growth_report)"
    by (simp add: growth_report_def)
  have h2: "?a \<in> set (group_by (key_type (settings (snapshot_runs growth_report ! 1)))
                   (filtered_snapshot example_runtime (snapshot_runs growth_report ! 1)))"
    by code_simp
  have h3: "?b \<in> set (group_by (key_type (settings (snapshot_runs growth_report ! 1)))
                   (filtered_snapshot example_runtime (snapshot_runs growth_report ! Suc 1)))"
    by code_simp
  have h4: "Traceback_frames (traceback ?b) = Traceback_frames (traceback ?a)"
    by simp
  have h5: "size_stat ?a < size_stat ?b"
    by simp
  have all: "map (\<lambda>dr. (iterations dr, map size_diff (diff dr)))
         (comparisons example_runtime growth_report)
       = [((0, 1), [- 1024]), ((1, 2), [- 1024])]"
    by code_simp
  from growth_has_negative_delta [OF h1 h2 h3 h4 h5]
  have "\<exists>d \<in> set (diff (comparisons example_runtime growth_report ! 1)).
        size_diff d = 1024 - 2048 \<and> size_diff d < 0"
    by auto
  with h1 all show ?thesis by simp
qed

end
